theory Spec2Isabelle
  imports Complex_Main "HOL-Library.Word"
begin

section \<open>Gates: the four node kinds and their one-level map\<close>

text \<open>
  The source declares four frozen dataclasses \<open>NOT(x)\<close>, \<open>AND(x, y)\<close>, \<open>OR(x, y)\<close> and
  \<open>Input(x)\<close> and two type aliases over them:
  \<^item> \<open>Gates[A] = Input[A] | NOT[A] | AND[A] | OR[A]\<close>, the one-level view, and
  \<^item> \<open>RecGates[A] = Input[A] | NOT[RecGates[A]] | AND[RecGates[A]] | OR[RecGates[A]]\<close>,
    the recursive view.
  Both views use the same classes; they differ in what the fields of \<open>NOT\<close>, \<open>AND\<close> and
  \<open>OR\<close> hold, while the field of \<open>Input\<close> is a payload in both. The datatype therefore
  has one parameter for the payload of \<open>Input\<close> and one for the fields of the other three
  classes: \<open>Gates[A]\<close> is \<open>('a, 'a) gate\<close> and \<open>RecGates[A]\<close> ties the knot.
\<close>

datatype ('a, 'r) gate = Input 'a | NOT 'r | AND 'r 'r | OR 'r 'r

type_synonym 'a Gates = "('a, 'a) gate"

datatype 'a RecGates = Rec "('a, 'a RecGates) gate"

text \<open>
  The method \<open>fmap\<close> of each class applies \<open>f\<close> to every field of the node and rebuilds a
  node of the same class, the fields in their order. In the typed model the function for the
  field of \<open>Input\<close> and the function for the fields of \<open>NOT\<close>, \<open>AND\<close>, \<open>OR\<close> are two
  arguments, because the two sorts of field have different types in the recursive view;
  \<open>fmap\<close> is the method as it acts on the one-level view, where they are the same function.
\<close>

fun fmap_gate :: "('a \<Rightarrow> 'b) \<Rightarrow> ('r \<Rightarrow> 's) \<Rightarrow> ('a, 'r) gate \<Rightarrow> ('b, 's) gate" where
  "fmap_gate h f (NOT x) = NOT (f x)"
| "fmap_gate h f (AND x y) = AND (f x) (f y)"
| "fmap_gate h f (OR x y) = OR (f x) (f y)"
| "fmap_gate h f (Input x) = Input (h x)"

definition fmap :: "('a \<Rightarrow> 'b) \<Rightarrow> 'a Gates \<Rightarrow> 'b Gates" where
  "fmap f g = fmap_gate f f g"

lemma fmap_gate_cong [fundef_cong]:
  "g = g' \<Longrightarrow> (\<And>x. x \<in> set2_gate g' \<Longrightarrow> f x = f' x) \<Longrightarrow> fmap_gate h f g = fmap_gate h f' g'"
  by (cases g') auto

definition XOR :: "'a RecGates \<Rightarrow> 'a RecGates \<Rightarrow> 'a RecGates" where
  "XOR x y = Rec (OR (Rec (AND x (Rec (NOT y)))) (Rec (AND (Rec (NOT x)) y)))"

definition EQ :: "'a RecGates \<Rightarrow> 'a RecGates \<Rightarrow> 'a RecGates" where
  "EQ x y = Rec (AND (Rec (OR x (Rec (NOT y)))) (Rec (OR (Rec (NOT x)) y)))"

section \<open>fold and map_inputs\<close>

text \<open>
  \<open>fold(f_algebra, g)\<close>: an \<open>Input\<close> goes to the algebra as it is; any other node is first
  mapped with \<open>g.fmap(partial(fold, f_algebra))\<close> and the algebra is applied to the result.
  The mapped node is never an \<open>Input\<close>, so the function for the payload is not used there
  (\<open>id\<close> stands in its place). The name carries a suffix to keep \<open>List.fold\<close> apart.

  The annotation of the source is \<open>Callable[[Gates[A]], A]\<close> for the algebra and
  \<open>RecGates[A]\<close> for the tree. Nothing in the body needs the payload of \<open>Input\<close> to have
  the type of the accumulated value, and Python does not check annotations, so the model lets
  them differ: the annotated type is the instance where \<open>'a\<close> and \<open>'b\<close> are the same.
\<close>

fun fold_gates :: "(('a, 'b) gate \<Rightarrow> 'b) \<Rightarrow> 'a RecGates \<Rightarrow> 'b" where
  "fold_gates f_algebra (Rec g) =
     (case g of
        Input x \<Rightarrow> f_algebra (Input x)
      | _ \<Rightarrow> f_algebra (fmap_gate id (fold_gates f_algebra) g))"

text \<open>
  \<open>map_inputs(f, g)\<close>: an \<open>Input\<close> is mapped with \<open>f\<close> itself, any other node with
  \<open>partial(map_inputs, f)\<close>.
\<close>

fun map_inputs :: "('a \<Rightarrow> 'b) \<Rightarrow> 'a RecGates \<Rightarrow> 'b RecGates" where
  "map_inputs f (Rec g) =
     (case g of
        Input x \<Rightarrow> Rec (fmap_gate f (map_inputs f) (Input x))
      | _ \<Rightarrow> Rec (fmap_gate f (map_inputs f) g))"

subsection \<open>The same traversal with an algebra that has an effect\<close>

text \<open>
  A Python callable may have an effect, and then the order of the calls matters. Here the
  callable takes a state and returns the new one. Python evaluates the arguments of a call
  from left to right before the call, so \<open>AND(f(self.x), f(self.y))\<close> runs \<open>f\<close> on \<open>x\<close>,
  then on \<open>y\<close>, and \<open>f_algebra(g.fmap(...))\<close> runs the algebra after the whole map.
\<close>

fun fmap_eff ::
  "('a \<Rightarrow> 's \<Rightarrow> 'b \<times> 's) \<Rightarrow> ('r \<Rightarrow> 's \<Rightarrow> 't \<times> 's) \<Rightarrow> ('a, 'r) gate \<Rightarrow> 's \<Rightarrow> ('b, 't) gate \<times> 's"
where
  "fmap_eff h f (NOT x) s = (case f x s of (a, s1) \<Rightarrow> (NOT a, s1))"
| "fmap_eff h f (AND x y) s =
     (case f x s of (a, s1) \<Rightarrow> (case f y s1 of (b, s2) \<Rightarrow> (AND a b, s2)))"
| "fmap_eff h f (OR x y) s =
     (case f x s of (a, s1) \<Rightarrow> (case f y s1 of (b, s2) \<Rightarrow> (OR a b, s2)))"
| "fmap_eff h f (Input x) s = (case h x s of (a, s1) \<Rightarrow> (Input a, s1))"

lemma fmap_eff_cong [fundef_cong]:
  "g = g' \<Longrightarrow> s = s' \<Longrightarrow> (\<And>x t. x \<in> set2_gate g' \<Longrightarrow> f x t = f' x t)
   \<Longrightarrow> fmap_eff h f g s = fmap_eff h f' g' s'"
  by (cases g') auto

fun fold_eff ::
  "(('a, 'b) gate \<Rightarrow> 's \<Rightarrow> 'b \<times> 's) \<Rightarrow> 'a RecGates \<Rightarrow> 's \<Rightarrow> 'b \<times> 's"
where
  "fold_eff f_algebra (Rec g) s =
     (case g of
        Input x \<Rightarrow> f_algebra (Input x) s
      | _ \<Rightarrow> (case fmap_eff Pair (fold_eff f_algebra) g s of (g', s') \<Rightarrow> f_algebra g' s'))"

text \<open>
  What the specification says of the traversal, written down directly: the number of nodes of
  a tree, and the one-level gates in post-order, the left subtree before the right one, each
  gate holding the accumulated values of its children.
\<close>

fun nodes :: "'a RecGates \<Rightarrow> nat" where
  "nodes (Rec (Input v)) = 1"
| "nodes (Rec (NOT t)) = nodes t + 1"
| "nodes (Rec (AND l r)) = nodes l + nodes r + 1"
| "nodes (Rec (OR l r)) = nodes l + nodes r + 1"

fun postorder :: "(('a, 'b) gate \<Rightarrow> 'b) \<Rightarrow> 'a RecGates \<Rightarrow> ('a, 'b) gate list" where
  "postorder alg (Rec (Input v)) = [Input v]"
| "postorder alg (Rec (NOT t)) = postorder alg t @ [NOT (fold_gates alg t)]"
| "postorder alg (Rec (AND l r)) =
     postorder alg l @ postorder alg r @ [AND (fold_gates alg l) (fold_gates alg r)]"
| "postorder alg (Rec (OR l r)) =
     postorder alg l @ postorder alg r @ [OR (fold_gates alg l) (fold_gates alg r)]"

text \<open>
  Replacing the payload of every leaf by its image under \<open>f\<close>, written down directly, and
  the payloads of the leaves of a tree from left to right.
\<close>

fun subst_leaves :: "('a \<Rightarrow> 'b) \<Rightarrow> 'a RecGates \<Rightarrow> 'b RecGates" where
  "subst_leaves f (Rec (Input v)) = Rec (Input (f v))"
| "subst_leaves f (Rec (NOT t)) = Rec (NOT (subst_leaves f t))"
| "subst_leaves f (Rec (AND l r)) = Rec (AND (subst_leaves f l) (subst_leaves f r))"
| "subst_leaves f (Rec (OR l r)) = Rec (OR (subst_leaves f l) (subst_leaves f r))"

fun leaf_values :: "'a RecGates \<Rightarrow> 'a list" where
  "leaf_values (Rec (Input v)) = [v]"
| "leaf_values (Rec (NOT t)) = leaf_values t"
| "leaf_values (Rec (AND l r)) = leaf_values l @ leaf_values r"
| "leaf_values (Rec (OR l r)) = leaf_values l @ leaf_values r"

section \<open>The algebras\<close>

fun boolean_algebra :: "bool Gates \<Rightarrow> bool" where
  "boolean_algebra (Input x) = x"
| "boolean_algebra (NOT x) = (\<not> x)"
| "boolean_algebra (AND x y) = (x \<and> y)"
| "boolean_algebra (OR x y) = (x \<or> y)"

text \<open>
  Python floats are IEEE 754 doubles. The model computes in \<open>real\<close>: it is the source's
  arithmetic wherever every operation is exact, which is so on the values \<open>0.0\<close> and
  \<open>1.0\<close> (differences and products of them are again \<open>0.0\<close> or \<open>1.0\<close>). Nothing is claimed
  below about \<open>float_algebra\<close> on other values.
\<close>

fun float_algebra :: "real Gates \<Rightarrow> real" where
  "float_algebra (Input x) = x"
| "float_algebra (NOT x) = 1 - x"
| "float_algebra (AND x y) = x * y"
| "float_algebra (OR x y) = 1 - (1 - x) * (1 - y)"

text \<open>
  \<open>derivative_algebra\<close> returns the integer \<open>1\<close> or \<open>-1\<close> for the one-operand kinds and a
  pair for the two-operand kinds. The operands are of any type with \<open>1\<close> and \<open>-\<close>; the case
  of \<open>AND\<close> does no arithmetic at all.
\<close>

datatype 'a derivative = Scalar int | Tuple 'a 'a

fun derivative_algebra :: "('a::{one,minus}) Gates \<Rightarrow> 'a derivative" where
  "derivative_algebra (Input x) = Scalar 1"
| "derivative_algebra (NOT x) = Scalar (- 1)"
| "derivative_algebra (AND x y) = Tuple y x"
| "derivative_algebra (OR x y) = Tuple (1 - y) (1 - x)"

fun string_algebra :: "string Gates \<Rightarrow> string" where
  "string_algebra (Input x) = x"
| "string_algebra (NOT x) = ''!('' @ x @ '')''"
| "string_algebra (AND x y) = ''('' @ x @ ''&'' @ y @ '')''"
| "string_algebra (OR x y) = ''('' @ x @ ''|'' @ y @ '')''"

definition example :: "'a \<Rightarrow> 'a \<Rightarrow> 'a \<Rightarrow> 'a RecGates" where
  "example x y z =
     (let x_input = Rec (Input x); y_input = Rec (Input y); z_input = Rec (Input z)
      in EQ (Rec (AND x_input (Rec (OR (Rec (AND x_input y_input)) z_input))))
            (Rec (NOT z_input)))"

definition bool_to_float :: "bool \<Rightarrow> real" where
  "bool_to_float b = (if b then 1.0 else 0.0)"

section \<open>UUIDs\<close>

text \<open>
  The source takes \<open>UUID\<close>, \<open>uuid5\<close>, \<open>NAMESPACE_X500\<close> and \<open>str\<close> of a UUID from Python's
  standard library. They are modelled after the library (module \<open>uuid\<close>, RFC 4122) and the
  hash it calls (\<open>hashlib.sha1\<close>, FIPS 180-4): a UUID is its 128-bit integer.
\<close>

type_synonym byte = "8 word"
type_synonym UUID = "128 word"

text \<open>\<open>int.to_bytes(n)\<close> and \<open>int.from_bytes\<close>, big-endian.\<close>

definition to_bytes :: "nat \<Rightarrow> 'a::len word \<Rightarrow> byte list" where
  "to_bytes n v = map (\<lambda>k. ucast (drop_bit (8 * (n - 1 - k)) v)) [0..<n]"

definition from_bytes :: "byte list \<Rightarrow> 'a::len word" where
  "from_bytes bs = foldl (\<lambda>acc b. or (push_bit 8 acc) (ucast b)) 0 bs"

subsection \<open>SHA-1\<close>

definition sha1_pad :: "byte list \<Rightarrow> byte list" where
  "sha1_pad m =
     m @ [0x80] @ replicate ((119 - length m mod 64) mod 64) 0
       @ to_bytes 8 (of_nat (8 * length m) :: 64 word)"

definition sha1_words :: "byte list \<Rightarrow> 32 word list" where
  "sha1_words blk = map (\<lambda>t. from_bytes (take 4 (drop (4 * t) blk))) [0..<16]"

definition sha1_extend :: "32 word list \<Rightarrow> 32 word list" where
  "sha1_extend w =
     (let t = length w
      in w @ [word_rotl 1
                (xor (xor (xor (w ! (t - 3)) (w ! (t - 8))) (w ! (t - 14))) (w ! (t - 16)))])"

definition sha1_schedule :: "byte list \<Rightarrow> 32 word list" where
  "sha1_schedule blk = (sha1_extend ^^ 64) (sha1_words blk)"

definition sha1_f :: "nat \<Rightarrow> 32 word \<Rightarrow> 32 word \<Rightarrow> 32 word \<Rightarrow> 32 word" where
  "sha1_f t b c d =
     (if t < 20 then or (Bit_Operations.and b c) (Bit_Operations.and (not b) d)
      else if t < 40 then xor (xor b c) d
      else if t < 60 then
        or (or (Bit_Operations.and b c) (Bit_Operations.and b d)) (Bit_Operations.and c d)
      else xor (xor b c) d)"

definition sha1_k :: "nat \<Rightarrow> 32 word" where
  "sha1_k t =
     (if t < 20 then 0x5A827999
      else if t < 40 then 0x6ED9EBA1
      else if t < 60 then 0x8F1BBCDC
      else 0xCA62C1D6)"

type_synonym sha1_state = "32 word \<times> 32 word \<times> 32 word \<times> 32 word \<times> 32 word"

fun sha1_round :: "32 word list \<Rightarrow> sha1_state \<Rightarrow> nat \<Rightarrow> sha1_state" where
  "sha1_round w (a, b, c, d, e) t =
     (word_rotl 5 a + sha1_f t b c d + e + sha1_k t + w ! t, a, word_rotl 30 b, c, d)"

fun sha1_block :: "sha1_state \<Rightarrow> byte list \<Rightarrow> sha1_state" where
  "sha1_block (h0, h1, h2, h3, h4) blk =
     (case foldl (sha1_round (sha1_schedule blk)) (h0, h1, h2, h3, h4) [0..<80] of
        (a, b, c, d, e) \<Rightarrow> (h0 + a, h1 + b, h2 + c, h3 + d, h4 + e))"

definition sha1_blocks :: "byte list \<Rightarrow> byte list list" where
  "sha1_blocks bs = map (\<lambda>i. take 64 (drop (64 * i) bs)) [0..<length bs div 64]"

definition sha1 :: "byte list \<Rightarrow> byte list" where
  "sha1 m =
     (case foldl sha1_block (0x67452301, 0xEFCDAB89, 0x98BADCFE, 0x10325476, 0xC3D2E1F0)
             (sha1_blocks (sha1_pad m)) of
        (h0, h1, h2, h3, h4) \<Rightarrow> concat (map (to_bytes 4) [h0, h1, h2, h3, h4]))"

subsection \<open>The module uuid\<close>

text \<open>
  \<open>bytes(name, "utf-8")\<close>: the names hashed here are made of hexadecimal digits and hyphens,
  one byte each.
\<close>

definition utf8 :: "string \<Rightarrow> byte list" where
  "utf8 s = map of_char s"

definition UUID_bytes :: "UUID \<Rightarrow> byte list" where
  "UUID_bytes u = to_bytes 16 u"

definition hex_digit :: "nat \<Rightarrow> char" where
  "hex_digit d = ''0123456789abcdef'' ! d"

definition UUID_hex :: "UUID \<Rightarrow> string" where
  "UUID_hex u =
     map (\<lambda>k. hex_digit (unat (Bit_Operations.and (drop_bit (4 * (31 - k)) u) 0xf))) [0..<32]"

definition UUID_str :: "UUID \<Rightarrow> string" where
  "UUID_str u =
     (let hex = UUID_hex u
      in take 8 hex @ ''-'' @ take 4 (drop 8 hex) @ ''-'' @ take 4 (drop 12 hex) @ ''-''
         @ take 4 (drop 16 hex) @ ''-'' @ drop 20 hex)"

text \<open>
  \<open>UUID(bytes=..., version=v)\<close> sets the two variant bits to \<open>10\<close> and the four version bits
  (bits 76 to 79) to \<open>v\<close>.
\<close>

definition set_version :: "UUID \<Rightarrow> UUID \<Rightarrow> UUID" where
  "set_version version i =
     or (Bit_Operations.and
           (or (Bit_Operations.and i (not (push_bit 48 0xc000))) (push_bit 48 0x8000))
           (not (push_bit 64 0xf000)))
        (push_bit 76 version)"

definition uuid5 :: "UUID \<Rightarrow> string \<Rightarrow> UUID" where
  "uuid5 namespace name =
     set_version 5 (from_bytes (take 16 (sha1 (UUID_bytes namespace @ utf8 name))))"

definition NAMESPACE_X500 :: UUID where
  "NAMESPACE_X500 = 0x6ba7b8149dad11d180b400c04fd430c8"


section \<open>Identified values and the lifted algebra\<close>

text \<open>\<open>from_uuids(*uuid)\<close>: the variadic arguments are the list \<open>uuid\<close>.\<close>

definition from_uuids :: "UUID list \<Rightarrow> UUID" where
  "from_uuids uuid = uuid5 NAMESPACE_X500 (concat (map UUID_str uuid))"

text \<open>
  The dataclass \<open>Uniq\<close> with its fields \<open>unwrapped\<close> and \<open>uuid\<close>. The default of \<open>uuid\<close> is a
  random \<open>uuid4()\<close>; the model takes the identity as given.
\<close>

datatype 'a Uniq = Uniq (unwrapped: 'a) (uuid: UUID)


text \<open>
  \<open>g.__dataclass_fields__\<close> names the fields of the node in the order of their declaration;
  \<open>dataclass_fields\<close> is the list of their values.
\<close>

fun dataclass_fields :: "'a Gates \<Rightarrow> 'a list" where
  "dataclass_fields (Input x) = [x]"
| "dataclass_fields (NOT x) = [x]"
| "dataclass_fields (AND x y) = [x, y]"
| "dataclass_fields (OR x y) = [x, y]"

definition uniquify_algebra :: "('a Gates \<Rightarrow> 'a) \<Rightarrow> 'a Uniq Gates \<Rightarrow> 'a Uniq" where
  "uniquify_algebra algebra g =
     (let uuids = map uuid (dataclass_fields g);
          unlifted = algebra (fmap unwrapped g)
      in Uniq unlifted (from_uuids uuids))"

text \<open>The class of a node, for statements that compare two nodes of the same kind.\<close>

datatype kind = Input_kind | NOT_kind | AND_kind | OR_kind

fun kind_of :: "('a, 'r) gate \<Rightarrow> kind" where
  "kind_of (Input x) = Input_kind"
| "kind_of (NOT x) = NOT_kind"
| "kind_of (AND x y) = AND_kind"
| "kind_of (OR x y) = OR_kind"

section \<open>Basic facts\<close>

lemma fold_gates_Input: "fold_gates alg (Rec (Input v)) = alg (Input v)"
  by simp

lemma fold_gates_NOT: "fold_gates alg (Rec (NOT t)) = alg (NOT (fold_gates alg t))"
  by simp

lemma fold_gates_AND:
  "fold_gates alg (Rec (AND l r)) = alg (AND (fold_gates alg l) (fold_gates alg r))"
  by simp

lemma fold_gates_OR:
  "fold_gates alg (Rec (OR l r)) = alg (OR (fold_gates alg l) (fold_gates alg r))"
  by simp

lemmas fold_gates_node = fold_gates_Input fold_gates_NOT fold_gates_AND fold_gates_OR

lemma map_inputs_Input: "map_inputs f (Rec (Input v)) = Rec (Input (f v))"
  by simp

lemma map_inputs_NOT: "map_inputs f (Rec (NOT t)) = Rec (NOT (map_inputs f t))"
  by simp

lemma map_inputs_AND:
  "map_inputs f (Rec (AND l r)) = Rec (AND (map_inputs f l) (map_inputs f r))"
  by simp

lemma map_inputs_OR:
  "map_inputs f (Rec (OR l r)) = Rec (OR (map_inputs f l) (map_inputs f r))"
  by simp

lemmas map_inputs_node = map_inputs_Input map_inputs_NOT map_inputs_AND map_inputs_OR

lemma fold_eff_Input: "fold_eff alg (Rec (Input v)) s = alg (Input v) s"
  by simp

lemma fold_eff_NOT:
  "fold_eff alg (Rec (NOT t)) s = (case fold_eff alg t s of (a, s1) \<Rightarrow> alg (NOT a) s1)"
  by (simp split: prod.splits)

lemma fold_eff_AND:
  "fold_eff alg (Rec (AND l r)) s =
     (case fold_eff alg l s of (a, s1) \<Rightarrow>
        (case fold_eff alg r s1 of (b, s2) \<Rightarrow> alg (AND a b) s2))"
  by (simp split: prod.splits)

lemma fold_eff_OR:
  "fold_eff alg (Rec (OR l r)) s =
     (case fold_eff alg l s of (a, s1) \<Rightarrow>
        (case fold_eff alg r s1 of (b, s2) \<Rightarrow> alg (OR a b) s2))"
  by (simp split: prod.splits)

lemmas fold_eff_node = fold_eff_Input fold_eff_NOT fold_eff_AND fold_eff_OR

declare fold_gates.simps [simp del] map_inputs.simps [simp del] fold_eff.simps [simp del]

text \<open>Induction over a tree, one case for each class of node.\<close>

lemma RecGates_induct [case_names Input NOT AND OR]:
  assumes "\<And>v. P (Rec (Input v))"
    and "\<And>t. P t \<Longrightarrow> P (Rec (NOT t))"
    and "\<And>l r. P l \<Longrightarrow> P r \<Longrightarrow> P (Rec (AND l r))"
    and "\<And>l r. P l \<Longrightarrow> P r \<Longrightarrow> P (Rec (OR l r))"
  shows "P T"
proof (induction T)
  case (Rec g)
  then show ?case
    by (cases g) (auto intro: assms)
qed

section \<open>The traversal\<close>

text \<open>An algebra without effect, run through the traversal with effects, is the pure fold.\<close>

lemma fold_eff_pure: "fold_eff (\<lambda>g s. (alg g, s)) T s = (fold_gates alg T, s)"
  by (induction T arbitrary: s rule: RecGates_induct)
     (simp_all add: fold_eff_node fold_gates_node)

lemma fold_eff_count:
  "fold_eff (\<lambda>g n. (alg g, Suc n)) T n = (fold_gates alg T, n + nodes T)"
  by (induction T arbitrary: n rule: RecGates_induct)
     (simp_all add: fold_eff_node fold_gates_node)

lemma fold_eff_trace:
  "fold_eff (\<lambda>g tr. (alg g, tr @ [g])) T tr0 = (fold_gates alg T, tr0 @ postorder alg T)"
  by (induction T arbitrary: tr0 rule: RecGates_induct)
     (simp_all add: fold_eff_node fold_gates_node)

lemma length_postorder: "length (postorder alg T) = nodes T"
  by (induction T rule: RecGates_induct) simp_all

text \<open>
  C4. For every algebra, \<open>fold\<close> of an \<open>Input\<close> is the algebra applied to that \<open>Input\<close>;
  \<open>fold\<close> of \<open>NOT(t)\<close> is the algebra applied to \<open>NOT\<close> of the fold of \<open>t\<close>; \<open>fold\<close> of
  \<open>AND(l, r)\<close> is the algebra applied to \<open>AND\<close> of the folds of \<open>l\<close> and \<open>r\<close>, and likewise
  for \<open>OR\<close>. With an algebra that counts its calls, the count after the fold has grown by
  the number of nodes of the tree: one application for each node. With an algebra that records
  the gate of each call, the record is the post-order of the tree, the left slot before the
  right one.
\<close>

theorem fold_post_order:
  "fold_gates alg (Rec (Input v)) = alg (Input v)
   \<and> fold_gates alg (Rec (NOT t)) = alg (NOT (fold_gates alg t))
   \<and> fold_gates alg (Rec (AND l r)) = alg (AND (fold_gates alg l) (fold_gates alg r))
   \<and> fold_gates alg (Rec (OR l r)) = alg (OR (fold_gates alg l) (fold_gates alg r))
   \<and> fold_eff (\<lambda>g n. (alg g, Suc n)) T n = (fold_gates alg T, n + nodes T)
   \<and> fold_eff (\<lambda>g tr. (alg g, tr @ [g])) T [] = (fold_gates alg T, postorder alg T)"
  using fold_eff_trace [of alg T "[]"]
  by (simp add: fold_gates_node fold_eff_count)

section \<open>Rewriting the leaves\<close>

lemma map_inputs_subst_leaves: "map_inputs f T = subst_leaves f T"
  by (induction T rule: RecGates_induct) (simp_all add: map_inputs_node)

lemma fold_gates_map_inputs:
  "fold_gates alg (map_inputs f T) = fold_gates (\<lambda>g. alg (fmap_gate f id g)) T"
  by (induction T rule: RecGates_induct) (simp_all add: map_inputs_node fold_gates_node)

text \<open>
  C5. For every tree \<open>T\<close> and every transform \<open>f\<close> of the payloads, \<open>map_inputs(f, T)\<close> is
  the tree \<open>T\<close> with each leaf payload \<open>v\<close> replaced by \<open>f(v)\<close>, every \<open>NOT\<close>, \<open>AND\<close> and
  \<open>OR\<close> node keeping its kind and the order of its slots. So the fold of the boolean algebra
  over \<open>map_inputs(f, T)\<close> is the fold over the tree with \<open>f\<close> substituted into the leaves,
  and it is also the fold over \<open>T\<close> itself of the boolean algebra that reads each leaf
  through \<open>f\<close>.
\<close>

theorem map_inputs_commutes_with_fold:
  "map_inputs f T = subst_leaves f T
   \<and> fold_gates boolean_algebra (map_inputs f T) = fold_gates boolean_algebra (subst_leaves f T)
   \<and> fold_gates boolean_algebra (map_inputs f T)
       = fold_gates (\<lambda>g. boolean_algebra (fmap_gate f id g)) T"
  by (simp add: map_inputs_subst_leaves [symmetric] fold_gates_map_inputs)

section \<open>The continuous relaxation on 0.0 and 1.0\<close>

lemma float_bool_fold:
  "fold_gates float_algebra (map_inputs bool_to_float B)
     = bool_to_float (fold_gates boolean_algebra B)"
  by (induction B rule: RecGates_induct)
     (simp_all add: map_inputs_node fold_gates_node bool_to_float_def)

lemma float_tree_is_bool_tree:
  "set (leaf_values T) \<subseteq> {0, 1}
   \<Longrightarrow> map_inputs bool_to_float (map_inputs (\<lambda>v. v = 1) T) = T"
  by (induction T rule: RecGates_induct) (auto simp add: map_inputs_node bool_to_float_def)

text \<open>
  C3. For every tree whose leaf payloads are all \<open>0.0\<close> or \<open>1.0\<close>, the fold of
  \<open>float_algebra\<close> over the tree is \<open>bool_to_float\<close> of the fold of \<open>boolean_algebra\<close> over
  the corresponding boolean tree, the one with each leaf \<open>1.0\<close> read as \<open>True\<close> and each
  leaf \<open>0.0\<close> as \<open>False\<close>.
\<close>

theorem float_algebra_agrees_with_boolean:
  assumes "set (leaf_values T) \<subseteq> {0, 1}"
  shows "fold_gates float_algebra T
           = bool_to_float (fold_gates boolean_algebra (map_inputs (\<lambda>v. v = 1) T))"
proof -
  have "fold_gates float_algebra T
          = fold_gates float_algebra (map_inputs bool_to_float (map_inputs (\<lambda>v. v = 1) T))"
    using assms by (simp add: float_tree_is_bool_tree)
  also have "\<dots> = bool_to_float (fold_gates boolean_algebra (map_inputs (\<lambda>v. v = 1) T))"
    by (rule float_bool_fold)
  finally show ?thesis .
qed

theorem float_algebra_agrees_with_boolean_witness:
  "set (leaf_values (example (0::real) 1 0)) \<subseteq> {0, 1}
   \<and> fold_gates float_algebra (example 0 1 0)
       = bool_to_float
           (fold_gates boolean_algebra (map_inputs (\<lambda>v. v = 1) (example (0::real) 1 0)))
   \<and> fold_gates float_algebra (example 0 1 0) = 0"
proof -
  have leaves: "set (leaf_values (example (0::real) 1 0)) \<subseteq> {0, 1}"
    by (simp add: example_def EQ_def Let_def)
  have "fold_gates float_algebra (example 0 1 0) = 0"
    by (simp add: example_def EQ_def Let_def fold_gates_node)
  with leaves float_algebra_agrees_with_boolean [OF leaves] show ?thesis
    by simp
qed

section \<open>The local gradient\<close>

text \<open>
  C9. \<open>derivative_algebra\<close> applied to the one-level gate \<open>AND(0.3, 0.7)\<close> returns the pair
  \<open>(0.7, 0.3)\<close>; for any two operands \<open>x\<close> and \<open>y\<close> it returns \<open>(y, x)\<close>, the operands
  themselves in exchanged order, with no arithmetic on them.
\<close>

theorem derivative_algebra_AND:
  "derivative_algebra (AND (0.3::real) 0.7) = Tuple 0.7 0.3
   \<and> derivative_algebra (AND x y) = Tuple y x"
  by simp

section \<open>The payload of the lifted algebra\<close>

lemma unwrapped_uniquify: "unwrapped (uniquify_algebra alg g) = alg (fmap unwrapped g)"
  by (simp add: uniquify_algebra_def)

lemma unwrapped_fold_uniquify:
  "unwrapped (fold_gates (uniquify_algebra alg) T) = fold_gates alg (map_inputs unwrapped T)"
  by (induction T rule: RecGates_induct)
     (simp_all add: map_inputs_node fold_gates_node unwrapped_uniquify fmap_def)

text \<open>
  C6. For every algebra and every one-level gate of identified values, the payload of the
  lifted algebra's result is the algebra applied to the gate with each slot unwrapped; and for
  every tree of identified leaves, unwrapping the fold of the lifted algebra gives the fold
  of the algebra over the tree of the unwrapped payloads.
\<close>

theorem uniquify_algebra_payload:
  "unwrapped (uniquify_algebra alg g) = alg (fmap unwrapped g)
   \<and> unwrapped (fold_gates (uniquify_algebra alg) T) = fold_gates alg (map_inputs unwrapped T)"
  by (simp add: unwrapped_uniquify unwrapped_fold_uniquify)

section \<open>The end-to-end scenario\<close>

text \<open>
  C2 (as the code behaves). With \<open>x = False\<close>, \<open>y = True\<close>, \<open>z = False\<close> the left argument
  of \<open>EQ\<close> folds to \<open>False\<close> and the right argument \<open>NOT(z)\<close> folds to \<open>True\<close>, so folding
  the boolean algebra over the example tree returns \<open>False\<close>.
\<close>

theorem example_boolean_fold_False:
  "fold_gates boolean_algebra (example False True False) = False
   \<and> fold_gates boolean_algebra
        (Rec (AND (Rec (Input False))
                  (Rec (OR (Rec (AND (Rec (Input False)) (Rec (Input True)))) (Rec (Input False))))))
      = False
   \<and> fold_gates boolean_algebra (Rec (NOT (Rec (Input False)))) = True"
  by (simp add: example_def EQ_def Let_def fold_gates_node)

text \<open>
  C2 (as the specification states it) fails: the fold of the boolean algebra over the example
  tree with \<open>x = False\<close>, \<open>y = True\<close>, \<open>z = False\<close> is not \<open>True\<close>.
\<close>

theorem example_boolean_fold_not_True:
  "fold_gates boolean_algebra (example False True False) \<noteq> True"
  by (simp add: example_def EQ_def Let_def fold_gates_node)

section \<open>Identities\<close>

subsection \<open>The version of a derived identity\<close>







lemma from_uuids_pair:
  "from_uuids [a, b] = uuid5 NAMESPACE_X500 (UUID_str a @ UUID_str b)"
  by (simp add: from_uuids_def)



lemma uuid_uniquify:
  "uuid (uniquify_algebra alg g) = from_uuids (map uuid (dataclass_fields g))"
  by (simp add: uniquify_algebra_def)


subsection \<open>The identity of a leaf\<close>




subsection \<open>The identity of a node\<close>

text \<open>
  C7. For every algebra, two one-level gates of the same kind whose ordered lists of slot
  identities are equal get equal identities from the lifted algebra, whatever the payloads
  in the slots: the derived identity is \<open>from_uuids\<close> of the ordered slot identities.
\<close>

theorem derived_identity_ignores_payloads:
  assumes "kind_of g = kind_of g'"
    and "map uuid (dataclass_fields g) = map uuid (dataclass_fields g')"
  shows "uuid (uniquify_algebra alg g) = uuid (uniquify_algebra alg g')
         \<and> uuid (uniquify_algebra alg g) = from_uuids (map uuid (dataclass_fields g))"
  using assms by (simp add: uuid_uniquify)

theorem derived_identity_ignores_payloads_witness:
  "kind_of (AND (Uniq True 0x0000000000004000800000000000002a)
                 (Uniq True 0x0000000000004000800000000000002b))
     = kind_of (AND (Uniq False 0x0000000000004000800000000000002a)
                     (Uniq True 0x0000000000004000800000000000002b))
   \<and> map uuid (dataclass_fields (AND (Uniq True 0x0000000000004000800000000000002a)
                                    (Uniq True 0x0000000000004000800000000000002b)))
     = map uuid (dataclass_fields (AND (Uniq False 0x0000000000004000800000000000002a)
                                    (Uniq True 0x0000000000004000800000000000002b)))
   \<and> unwrapped (uniquify_algebra boolean_algebra
                   (AND (Uniq True 0x0000000000004000800000000000002a)
                        (Uniq True 0x0000000000004000800000000000002b)))
     \<noteq> unwrapped (uniquify_algebra boolean_algebra
                   (AND (Uniq False 0x0000000000004000800000000000002a)
                        (Uniq True 0x0000000000004000800000000000002b)))
   \<and> uuid (uniquify_algebra boolean_algebra
              (AND (Uniq True 0x0000000000004000800000000000002a)
                   (Uniq True 0x0000000000004000800000000000002b)))
     = uuid (uniquify_algebra boolean_algebra
              (AND (Uniq False 0x0000000000004000800000000000002a)
                   (Uniq True 0x0000000000004000800000000000002b)))"
  using derived_identity_ignores_payloads
          [of "AND (Uniq True 0x0000000000004000800000000000002a)
                   (Uniq True 0x0000000000004000800000000000002b)"
              "AND (Uniq False 0x0000000000004000800000000000002a)
                   (Uniq True 0x0000000000004000800000000000002b)"
              boolean_algebra]
  by (simp add: unwrapped_uniquify fmap_def)

text \<open>
  C8. For every algebra, all identities \<open>a\<close> and \<open>b\<close> and all payloads, the lifted algebra
  derives the same identity for \<open>AND(x, y)\<close> and for \<open>OR(x, y)\<close> when \<open>x\<close> carries \<open>a\<close> and
  \<open>y\<close> carries \<open>b\<close> in both: the derivation hashes the slot identities only, and the kind of
  the node has no part in it.
\<close>

theorem AND_OR_identity_collision:
  "uuid (uniquify_algebra alg (AND (Uniq p a) (Uniq q b)))
     = uuid (uniquify_algebra alg (OR (Uniq p' a) (Uniq q' b)))
   \<and> uuid (uniquify_algebra alg (AND (Uniq p a) (Uniq q b))) = from_uuids [a, b]"
  by (simp add: uuid_uniquify)

subsection \<open>Mapping over an identified value\<close>



end
